theory Spec2Isabelle
  imports Complex_Main "HOL-Library.Multiset"
begin

section \<open>Python values, errors and interpreter services\<close>

text \<open>
  The scorer of \<^verbatim>\<open>tasks/scoring.py\<close> works on loosely typed task dictionaries. The values
  a field can hold are the JSON scalars, lists of task ids, and the two calendar types
  \<^verbatim>\<open>parse_date\<close> tests for. A calendar date is its proleptic ordinal (a day number), so the
  difference of two dates in days is the difference of their ordinals.

  Python floats are idealised as reals: arithmetic is exact, and there is neither NaN nor
  an infinity. The one float operation of the scorer that raises, \<^verbatim>\<open>float(n)\<close> on an
  integer beyond the range of a double, is kept.
\<close>

datatype pyval =
    PNone
  | PBool bool
  | PInt int
  | PFloat real
  | PStr string
  | PList "int list"
  | PDate int
  | PDateTime int nat

datatype py_error = TypeError | ValueError | OverflowError | RecursionError

text \<open>
  What the scorer takes from the interpreter and its library: the wall clock
  (\<^verbatim>\<open>date.today()\<close>), the two string-to-date parsers, the string-to-float parser of
  \<^verbatim>\<open>float(s)\<close> and the printing of a float inside an f-string. They are parameters of
  the model; every theorem below holds for all of them.
\<close>

record pyenv =
  today :: int
  strptime_ymd :: "string \<Rightarrow> int option"
  fromisoformat :: "string \<Rightarrow> int option"
  float_of_str :: "string \<Rightarrow> real option"
  float_repr :: "real \<Rightarrow> string"

text \<open>A task dictionary; \<open>None\<close> in a field is a key the dictionary does not have.\<close>

record task =
  task_id :: "int option"
  title :: "string option"
  due_date :: "pyval option"
  estimated_hours :: "pyval option"
  importance :: "pyval option"
  dependencies :: "pyval option"

text \<open>\<^verbatim>\<open>d.get(key)\<close>: the value, or Python's \<^verbatim>\<open>None\<close> for a missing key.\<close>

definition dict_get :: "pyval option \<Rightarrow> pyval" where
  "dict_get v = (case v of None \<Rightarrow> PNone | Some x \<Rightarrow> x)"

text \<open>\<^verbatim>\<open>d.get(key, default)\<close>.\<close>

definition dict_get_default :: "pyval option \<Rightarrow> pyval \<Rightarrow> pyval" where
  "dict_get_default v d = (case v of None \<Rightarrow> d | Some x \<Rightarrow> x)"

fun py_truthy :: "pyval \<Rightarrow> bool" where
  "py_truthy PNone = False"
| "py_truthy (PBool b) = b"
| "py_truthy (PInt n) = (n \<noteq> 0)"
| "py_truthy (PFloat r) = (r \<noteq> 0)"
| "py_truthy (PStr s) = (s \<noteq> [])"
| "py_truthy (PList xs) = (xs \<noteq> [])"
| "py_truthy (PDate d) = True"
| "py_truthy (PDateTime d s) = True"

text \<open>
  \<^verbatim>\<open>float(n)\<close> rounds an integer to the nearest double and raises OverflowError when the
  result would need an exponent above 1023, that is from \<open>2^1024 - 2^970\<close> on.
\<close>

definition float_overflow_bound :: int where
  "float_overflow_bound = 2 ^ 1024 - 2 ^ 970"

fun py_float :: "pyenv \<Rightarrow> pyval \<Rightarrow> py_error + real" where
  "py_float env PNone = Inl TypeError"
| "py_float env (PBool b) = Inr (if b then 1 else 0)"
| "py_float env (PInt n) =
     (if float_overflow_bound \<le> \<bar>n\<bar> then Inl OverflowError else Inr (real_of_int n))"
| "py_float env (PFloat r) = Inr r"
| "py_float env (PStr s) =
     (case float_of_str env s of None \<Rightarrow> Inl ValueError | Some r \<Rightarrow> Inr r)"
| "py_float env (PList xs) = Inl TypeError"
| "py_float env (PDate d) = Inl TypeError"
| "py_float env (PDateTime d s) = Inl TypeError"

text \<open>\<^verbatim>\<open>int(x)\<close> on a float truncates towards zero.\<close>

definition py_int_of_float :: "real \<Rightarrow> int" where
  "py_int_of_float r = (if 0 \<le> r then \<lfloor>r\<rfloor> else \<lceil>r\<rceil>)"

text \<open>\<^verbatim>\<open>round(x, nd)\<close>: to the nearest multiple of \<open>10^-nd\<close>, a tie to the even one.\<close>

definition py_round :: "real \<Rightarrow> nat \<Rightarrow> real" where
  "py_round x nd =
     (let y = x * 10 ^ nd;
          f = \<lfloor>y\<rfloor>;
          r = y - real_of_int f;
          k = (if r < 1 / 2 then f
               else if 1 / 2 < r then f + 1
               else if even f then f else f + 1)
      in real_of_int k / 10 ^ nd)"

subsection \<open>Printing integers\<close>

definition digit_char :: "nat \<Rightarrow> char" where
  "digit_char n = ''0123456789'' ! (n mod 10)"

function str_nat :: "nat \<Rightarrow> string" where
  "str_nat n = (if n < 10 then [digit_char n] else str_nat (n div 10) @ [digit_char n])"
  by pat_completeness auto
termination
  by (relation "measure id") auto

declare str_nat.simps [simp del]

definition str_int :: "int \<Rightarrow> string" where
  "str_int i = (if i < 0 then CHR ''-'' # str_nat (nat (- i)) else str_nat (nat i))"

section \<open>Strategy weights and defaults\<close>

record weights =
  w_urgency :: real
  w_importance :: real
  w_effort :: real
  w_dependencies :: real

definition STRATEGY_WEIGHTS :: "(string \<times> weights) list" where
  "STRATEGY_WEIGHTS =
     [(''smart_balance'',
         \<lparr>w_urgency = 35 / 100, w_importance = 30 / 100, w_effort = 15 / 100,
          w_dependencies = 20 / 100\<rparr>),
      (''quick_wins'',
         \<lparr>w_urgency = 15 / 100, w_importance = 15 / 100, w_effort = 55 / 100,
          w_dependencies = 15 / 100\<rparr>),
      (''high_impact'',
         \<lparr>w_urgency = 15 / 100, w_importance = 60 / 100, w_effort = 10 / 100,
          w_dependencies = 15 / 100\<rparr>),
      (''deadline_driven'',
         \<lparr>w_urgency = 60 / 100, w_importance = 15 / 100, w_effort = 10 / 100,
          w_dependencies = 15 / 100\<rparr>)]"

text \<open>\<^verbatim>\<open>STRATEGY_WEIGHTS['smart_balance']\<close>, the fallback of every lookup.\<close>

definition smart_balance_weights :: weights where
  "smart_balance_weights =
     \<lparr>w_urgency = 35 / 100, w_importance = 30 / 100, w_effort = 15 / 100,
      w_dependencies = 20 / 100\<rparr>"

text \<open>\<^verbatim>\<open>STRATEGY_WEIGHTS.get(strategy, STRATEGY_WEIGHTS['smart_balance'])\<close>.\<close>

definition get_weights :: "string \<Rightarrow> weights" where
  "get_weights strategy =
     (case map_of STRATEGY_WEIGHTS strategy of
        None \<Rightarrow> smart_balance_weights
      | Some w \<Rightarrow> w)"

definition DEFAULT_importance :: pyval where
  "DEFAULT_importance = PInt 5"

definition DEFAULT_estimated_hours :: pyval where
  "DEFAULT_estimated_hours = PInt 4"

definition DEFAULT_dependencies :: pyval where
  "DEFAULT_dependencies = PList []"

section \<open>Date parsing\<close>

text \<open>\<^verbatim>\<open>s.replace('Z', '+00:00')\<close>.\<close>

definition replace_Z :: "string \<Rightarrow> string" where
  "replace_Z s = concat (map (\<lambda>c. if c = CHR ''Z'' then ''+00:00'' else [c]) s)"

fun parse_date :: "pyenv \<Rightarrow> pyval \<Rightarrow> int option" where
  "parse_date env PNone = None"
| "parse_date env (PDate d) = Some d"
| "parse_date env (PDateTime d s) = Some d"
| "parse_date env (PStr s) =
     (case strptime_ymd env s of
        Some d \<Rightarrow> Some d
      | None \<Rightarrow>
          (case fromisoformat env (replace_Z s) of
             Some d \<Rightarrow> Some d
           | None \<Rightarrow> None))"
| "parse_date env (PBool b) = None"
| "parse_date env (PInt n) = None"
| "parse_date env (PFloat r) = None"
| "parse_date env (PList xs) = None"

section \<open>The four component scorers\<close>

definition calculate_urgency_score :: "pyenv \<Rightarrow> 'a task_scheme \<Rightarrow> real \<times> string" where
  "calculate_urgency_score env t =
     (case parse_date env (dict_get (due_date t)) of
        None \<Rightarrow> (50, ''No due date set (neutral urgency)'')
      | Some dd \<Rightarrow>
          (let days_until_due = dd - today env in
           if days_until_due < 0 then
             (100, ''OVERDUE by '' @ str_int \<bar>days_until_due\<bar> @ '' day(s)!'')
           else if days_until_due = 0 then (95, ''Due TODAY!'')
           else if days_until_due \<le> 3 then
             (real_of_int (94 - (days_until_due - 1) * 5),
              ''Due in '' @ str_int days_until_due @ '' day(s) - High urgency'')
           else if days_until_due \<le> 7 then
             (real_of_int (79 - (days_until_due - 4) * 7),
              ''Due in '' @ str_int days_until_due @ '' day(s) - Medium urgency'')
           else if days_until_due \<le> 14 then
             (real_of_int (49 - (days_until_due - 8) * 3),
              ''Due in '' @ str_int days_until_due @ '' day(s) - Low urgency'')
           else
             (real_of_int (max 10 (29 - (days_until_due - 15))),
              ''Due in '' @ str_int days_until_due @ '' day(s) - Not urgent'')))"

text \<open>The tail of \<^verbatim>\<open>calculate_importance_score\<close>, from the clamped rating on.\<close>

definition importance_result :: "real \<Rightarrow> real \<times> string" where
  "importance_result imp =
     (let score = imp * 10;
          level = (if 8 \<le> imp then ''Critical''
                   else if 6 \<le> imp then ''High''
                   else if 4 \<le> imp then ''Medium''
                   else ''Low'')
      in (score, ''Importance: '' @ level @ '' ('' @ str_int (py_int_of_float imp) @ ''/10)''))"

definition calculate_importance_score ::
  "pyenv \<Rightarrow> 'a task_scheme \<Rightarrow> py_error + real \<times> string" where
  "calculate_importance_score env t =
     (let importance0 = dict_get (importance t);
          importance1 = (if importance0 = PNone then DEFAULT_importance else importance0)
      in case py_float env importance1 of
           Inr f \<Rightarrow> Inr (importance_result (max 1 (min 10 f)))
         | Inl e \<Rightarrow>
             if e = TypeError \<or> e = ValueError then Inr (importance_result 5)
             else Inl e)"

text \<open>
  The tail of \<^verbatim>\<open>calculate_effort_score\<close>: the hours as a number and as the f-string
  prints them (\<^verbatim>\<open>4\<close> for the integer default of the except branch, a float otherwise).
\<close>

definition effort_result :: "real \<Rightarrow> string \<Rightarrow> real \<times> string" where
  "effort_result hours shown =
     (let (score, category) =
            (if hours \<le> 1 then (100, ''Quick task'')
             else if hours \<le> 2 then (90, ''Quick win'')
             else if hours \<le> 4 then (80 - (hours - 2) * 5, ''Half-day task'')
             else if hours \<le> 8 then (70 - (hours - 4) * (75 / 10), ''Full-day task'')
             else if hours \<le> 16 then (40 - (hours - 8) * (25 / 10), ''Multi-day task'')
             else (max 10 (20 - (hours - 16) * (5 / 10)), ''Major effort''))
      in (score, category @ '' ('' @ shown @ ''h estimated)''))"

definition calculate_effort_score ::
  "pyenv \<Rightarrow> 'a task_scheme \<Rightarrow> py_error + real \<times> string" where
  "calculate_effort_score env t =
     (let hours0 = dict_get (estimated_hours t);
          hours1 = (if hours0 = PNone then DEFAULT_estimated_hours else hours0)
      in case py_float env hours1 of
           Inr f \<Rightarrow> (let hours = max (5 / 10) f in Inr (effort_result hours (float_repr env hours)))
         | Inl e \<Rightarrow>
             if e = TypeError \<or> e = ValueError then Inr (effort_result 4 ''4'')
             else Inl e)"

text \<open>
  \<^verbatim>\<open>x.get('dependencies') or default\<close> followed by the \<^verbatim>\<open>isinstance(..., list)\<close> test:
  the ids of a list value, and no ids for anything else.
\<close>

definition or_default :: "pyval \<Rightarrow> pyval \<Rightarrow> pyval" where
  "or_default v d = (if py_truthy v then v else d)"

fun list_or_empty :: "pyval \<Rightarrow> int list" where
  "list_or_empty (PList xs) = xs"
| "list_or_empty v = []"

fun is_list :: "pyval \<Rightarrow> bool" where
  "is_list (PList xs) = True"
| "is_list v = False"

text \<open>\<^verbatim>\<open>task_id in other_deps\<close> for a list of integers; \<^verbatim>\<open>None\<close> equals no integer.\<close>

definition id_in :: "int option \<Rightarrow> int list \<Rightarrow> bool" where
  "id_in i xs = (case i of None \<Rightarrow> False | Some k \<Rightarrow> k \<in> set xs)"

text \<open>The loop that counts the tasks depending on \<open>i\<close>, with its counter.\<close>

fun count_blocking :: "int option \<Rightarrow> 'a task_scheme list \<Rightarrow> nat \<Rightarrow> nat" where
  "count_blocking i [] blocking_count = blocking_count"
| "count_blocking i (other_task # rest) blocking_count =
     (let other_deps = or_default (dict_get (dependencies other_task)) (PList [])
      in count_blocking i rest
           (if is_list other_deps \<and> id_in i (list_or_empty other_deps)
            then blocking_count + 1 else blocking_count))"

definition calculate_dependency_score ::
  "'a task_scheme \<Rightarrow> 'b task_scheme list \<Rightarrow> real \<times> string" where
  "calculate_dependency_score t all_tasks =
     (let i = task_id t;
          task_dependencies0 = or_default (dict_get (dependencies t)) DEFAULT_dependencies;
          task_dependencies =
            (if is_list task_dependencies0 then list_or_empty task_dependencies0 else []);
          blocking_count = count_blocking i all_tasks 0;
          has_unmet_deps = (0 < length task_dependencies)
      in if has_unmet_deps then
           (20, ''Blocked by '' @ str_nat (length task_dependencies) @ '' other task(s)'')
         else if 3 \<le> blocking_count then
           (100, ''Blocks '' @ str_nat blocking_count @ '' tasks - Critical path!'')
         else if blocking_count = 2 then (80, ''Blocks '' @ str_nat blocking_count @ '' tasks'')
         else if blocking_count = 1 then (60, ''Blocks '' @ str_nat blocking_count @ '' task'')
         else (40, ''Independent task''))"

section \<open>The blended score and its explanation\<close>

definition calculate_priority_score ::
  "pyenv \<Rightarrow> 'a task_scheme \<Rightarrow> 'b task_scheme list option \<Rightarrow> string \<Rightarrow> py_error + real" where
  "calculate_priority_score env t all_tasks0 strategy =
     (let all_tasks = (case all_tasks0 of None \<Rightarrow> [] | Some ts \<Rightarrow> ts);
          ws = get_weights strategy;
          urgency_score = fst (calculate_urgency_score env t)
      in case calculate_importance_score env t of
           Inl e \<Rightarrow> Inl e
         | Inr (importance_score, importance_exp) \<Rightarrow>
             (case calculate_effort_score env t of
                Inl e \<Rightarrow> Inl e
              | Inr (effort_score, effort_exp) \<Rightarrow>
                  (let dependency_score = fst (calculate_dependency_score t all_tasks);
                       total_score =
                         urgency_score * w_urgency ws +
                         importance_score * w_importance ws +
                         effort_score * w_effort ws +
                         dependency_score * w_dependencies ws
                   in Inr (py_round total_score 2))))"

text \<open>
  \<^verbatim>\<open>xs.sort(key=k, reverse=True)\<close>: Python's sort is stable, and with \<^verbatim>\<open>reverse=True\<close>
  elements of equal key still keep their order. That is a stable ascending sort on the
  negated key.
\<close>

definition py_sort_desc :: "('a \<Rightarrow> real) \<Rightarrow> 'a list \<Rightarrow> 'a list" where
  "py_sort_desc k xs = sort_key (\<lambda>x. - k x) xs"

text \<open>\<^verbatim>\<open>sep.join(parts)\<close>.\<close>

fun py_join :: "string \<Rightarrow> string list \<Rightarrow> string" where
  "py_join sep [] = []"
| "py_join sep [p] = p"
| "py_join sep (p # q # ps) = p @ sep @ py_join sep (q # ps)"

definition factor_part :: "pyenv \<Rightarrow> string \<times> real \<times> string \<times> real \<Rightarrow> string" where
  "factor_part env f =
     (case f of (name, score, expl, weight) \<Rightarrow>
        (let contribution = py_round (score * weight) 1
         in name @ '': '' @ expl @ '' (+'' @ float_repr env contribution @ '')''))"

definition get_score_explanation ::
  "pyenv \<Rightarrow> 'a task_scheme \<Rightarrow> 'b task_scheme list option \<Rightarrow> string \<Rightarrow> py_error + string" where
  "get_score_explanation env t all_tasks0 strategy =
     (let all_tasks = (case all_tasks0 of None \<Rightarrow> [] | Some ts \<Rightarrow> ts);
          ws = get_weights strategy;
          (urgency_score, urgency_exp) = calculate_urgency_score env t
      in case calculate_importance_score env t of
           Inl e \<Rightarrow> Inl e
         | Inr (importance_score, importance_exp) \<Rightarrow>
             (case calculate_effort_score env t of
                Inl e \<Rightarrow> Inl e
              | Inr (effort_score, effort_exp) \<Rightarrow>
                  (let (dependency_score, dependency_exp) = calculate_dependency_score t all_tasks;
                       factors =
                         [(''Urgency'', urgency_score, urgency_exp, w_urgency ws),
                          (''Importance'', importance_score, importance_exp, w_importance ws),
                          (''Effort'', effort_score, effort_exp, w_effort ws),
                          (''Dependencies'', dependency_score, dependency_exp, w_dependencies ws)];
                       sorted_factors = py_sort_desc (\<lambda>f. snd (snd (snd f))) factors
                   in Inr (py_join '' | '' (map (factor_part env) sorted_factors)))))"

section \<open>Cycle detection\<close>

text \<open>
  The adjacency dictionary, in insertion order: assigning to a key it already has
  replaces the value where the key stands.
\<close>

type_synonym graph = "(int option \<times> int list) list"

fun dict_set :: "'k \<Rightarrow> 'v \<Rightarrow> ('k \<times> 'v) list \<Rightarrow> ('k \<times> 'v) list" where
  "dict_set k v [] = [(k, v)]"
| "dict_set k v (p # ps) = (if fst p = k then (k, v) # ps else p # dict_set k v ps)"

definition graph_get :: "graph \<Rightarrow> int option \<Rightarrow> int list" where
  "graph_get g node = (case map_of g node of None \<Rightarrow> [] | Some deps \<Rightarrow> deps)"

definition in_graph :: "graph \<Rightarrow> int option \<Rightarrow> bool" where
  "in_graph g node = (map_of g node \<noteq> None)"

fun build_graph :: "'a task_scheme list \<Rightarrow> graph \<Rightarrow> graph" where
  "build_graph [] g = g"
| "build_graph (t # ts) g =
     (let deps0 = or_default (dict_get (dependencies t)) (PList []);
          deps = (if \<not> is_list deps0 then [] else list_or_empty deps0)
      in build_graph ts (dict_set (task_id t) deps g))"

text \<open>\<^verbatim>\<open>path.index(node)\<close> for a node the path holds.\<close>

fun index_of :: "'a list \<Rightarrow> 'a \<Rightarrow> nat" where
  "index_of [] x = 0"
| "index_of (y # ys) x = (if y = x then 0 else Suc (index_of ys x))"

record dfs_state =
  cycles :: "int option list list"
  visited :: "int option set"
  rec_stack :: "int option set"

text \<open>
  The recursive helper \<^verbatim>\<open>dfs\<close> and its loop over the neighbours, on the three variables
  of the enclosing function. The first argument bounds the depth of the recursion: a call
  at depth zero does not return (\<open>None\<close>), as a Python call beyond the interpreter's
  recursion limit does not.
\<close>

fun dfs :: "nat \<Rightarrow> graph \<Rightarrow> int option \<Rightarrow> int option list \<Rightarrow> dfs_state \<Rightarrow> dfs_state option"
  and dfs_neighbors ::
    "nat \<Rightarrow> graph \<Rightarrow> int list \<Rightarrow> int option list \<Rightarrow> dfs_state \<Rightarrow> dfs_state option" where
  "dfs 0 g node path st = None"
| "dfs (Suc depth) g node path st =
     (if node \<in> rec_stack st then
        Some (if node \<in> set path
              then st\<lparr>cycles := cycles st @ [drop (index_of path node) path @ [node]]\<rparr>
              else st)
      else if node \<in> visited st then Some st
      else
        (let st1 = st\<lparr>visited := insert node (visited st),
                      rec_stack := insert node (rec_stack st)\<rparr>;
             path1 = path @ [node]
         in case dfs_neighbors depth g (graph_get g node) path1 st1 of
              None \<Rightarrow> None
            | Some st2 \<Rightarrow> Some (st2\<lparr>rec_stack := rec_stack st2 - {node}\<rparr>)))"
| "dfs_neighbors depth g [] path st = Some st"
| "dfs_neighbors depth g (neighbor # rest) path st =
     (if in_graph g (Some neighbor) then
        (case dfs depth g (Some neighbor) path st of
           None \<Rightarrow> None
         | Some st1 \<Rightarrow> dfs_neighbors depth g rest path st1)
      else dfs_neighbors depth g rest path st)"

text \<open>\<^verbatim>\<open>for task_id in graph: if task_id not in visited: dfs(task_id, [])\<close>.\<close>

fun dfs_all :: "nat \<Rightarrow> graph \<Rightarrow> int option list \<Rightarrow> dfs_state \<Rightarrow> dfs_state option" where
  "dfs_all depth g [] st = Some st"
| "dfs_all depth g (k # ks) st =
     (if k \<notin> visited st then
        (case dfs depth g k [] st of
           None \<Rightarrow> None
         | Some st1 \<Rightarrow> dfs_all depth g ks st1)
      else dfs_all depth g ks st)"

text \<open>
  The search is given one level of recursion per key of the graph and one more, which
  is always enough (\<open>detect_circular_dependencies_returns\<close> below).
\<close>

definition detect_circular_dependencies ::
  "'a task_scheme list \<Rightarrow> int option list list option" where
  "detect_circular_dependencies ts =
     (let g = build_graph ts [];
          st0 = \<lparr>cycles = [], visited = {}, rec_stack = {}\<rparr>
      in map_option cycles (dfs_all (Suc (length g)) g (map fst g) st0))"

section \<open>Analysis and suggestions\<close>

record scored_task = task +
  priority_score :: real
  explanation :: string
  priority_level :: string

record analysis =
  tasks :: "scored_task list"
  circular_dependencies :: "int option list list"
  strategy_used :: string
  total_tasks :: nat

text \<open>\<^verbatim>\<open>task.copy()\<close> with the three keys the analysis adds.\<close>

definition task_copy_with :: "task \<Rightarrow> real \<Rightarrow> string \<Rightarrow> string \<Rightarrow> scored_task" where
  "task_copy_with t score ex level =
     \<lparr>task_id = task_id t, title = title t, due_date = due_date t,
      estimated_hours = estimated_hours t, importance = importance t,
      dependencies = dependencies t,
      priority_score = score, explanation = ex, priority_level = level\<rparr>"

definition level_of :: "real \<Rightarrow> string" where
  "level_of score =
     (if 70 \<le> score then ''high'' else if 40 \<le> score then ''medium'' else ''low'')"

text \<open>The scoring loop of \<^verbatim>\<open>analyze_tasks\<close>; the last argument is \<^verbatim>\<open>scored_tasks\<close>.\<close>

fun score_all ::
  "pyenv \<Rightarrow> task list \<Rightarrow> task list \<Rightarrow> string \<Rightarrow> scored_task list \<Rightarrow> py_error + scored_task list"
  where
  "score_all env [] all_tasks strategy scored_tasks = Inr scored_tasks"
| "score_all env (t # ts) all_tasks strategy scored_tasks =
     (case calculate_priority_score env t (Some all_tasks) strategy of
        Inl e \<Rightarrow> Inl e
      | Inr score \<Rightarrow>
          (case get_score_explanation env t (Some all_tasks) strategy of
             Inl e \<Rightarrow> Inl e
           | Inr ex \<Rightarrow>
               score_all env ts all_tasks strategy
                 (scored_tasks @ [task_copy_with t score ex (level_of score)])))"

definition analyze_tasks :: "pyenv \<Rightarrow> task list \<Rightarrow> string \<Rightarrow> py_error + analysis" where
  "analyze_tasks env ts strategy0 =
     (let strategy = (if strategy0 \<notin> set (map fst STRATEGY_WEIGHTS)
                      then ''smart_balance'' else strategy0)
      in case detect_circular_dependencies ts of
           None \<Rightarrow> Inl RecursionError
         | Some circular_deps \<Rightarrow>
             (case score_all env ts ts strategy [] of
                Inl e \<Rightarrow> Inl e
              | Inr scored \<Rightarrow>
                  Inr \<lparr>tasks = py_sort_desc priority_score scored,
                       circular_dependencies = circular_deps,
                       strategy_used = strategy,
                       total_tasks = length ts\<rparr>))"

text \<open>
  \<^verbatim>\<open>x >= n\<close> and \<^verbatim>\<open>x <= n\<close> for an integer literal \<open>n\<close>: numbers compare by value (a
  bool is an int), every other value raises TypeError.
\<close>

fun py_ge_int :: "pyval \<Rightarrow> int \<Rightarrow> py_error + bool" where
  "py_ge_int (PBool b) n = Inr (n \<le> (if b then 1 else 0))"
| "py_ge_int (PInt i) n = Inr (n \<le> i)"
| "py_ge_int (PFloat r) n = Inr (real_of_int n \<le> r)"
| "py_ge_int v n = Inl TypeError"

fun py_le_int :: "pyval \<Rightarrow> int \<Rightarrow> py_error + bool" where
  "py_le_int (PBool b) n = Inr ((if b then 1 else 0) \<le> n)"
| "py_le_int (PInt i) n = Inr (i \<le> n)"
| "py_le_int (PFloat r) n = Inr (r \<le> real_of_int n)"
| "py_le_int v n = Inl TypeError"

text \<open>\<^verbatim>\<open>p in s\<close> on strings.\<close>

fun str_contains :: "string \<Rightarrow> string \<Rightarrow> bool" where
  "str_contains p [] = (p = [])"
| "str_contains p (c # cs) = (take (length p) (c # cs) = p \<or> str_contains p cs)"

definition ascii_upper :: "char \<Rightarrow> char" where
  "ascii_upper c =
     (case map_of (zip ''abcdefghijklmnopqrstuvwxyz'' ''ABCDEFGHIJKLMNOPQRSTUVWXYZ'') c of
        None \<Rightarrow> c | Some u \<Rightarrow> u)"

definition ascii_lower :: "char \<Rightarrow> char" where
  "ascii_lower c =
     (case map_of (zip ''ABCDEFGHIJKLMNOPQRSTUVWXYZ'' ''abcdefghijklmnopqrstuvwxyz'') c of
        None \<Rightarrow> c | Some l \<Rightarrow> l)"

text \<open>\<^verbatim>\<open>s.capitalize()\<close> on the ASCII text the reasons are made of.\<close>

fun py_capitalize :: "string \<Rightarrow> string" where
  "py_capitalize [] = []"
| "py_capitalize (c # cs) = ascii_upper c # map ascii_lower cs"

definition due_reasons :: "pyenv \<Rightarrow> int option \<Rightarrow> string list" where
  "due_reasons env due =
     (case due of
        None \<Rightarrow> []
      | Some dd \<Rightarrow>
          (let days_until = dd - today env in
           if days_until < 0 then [''overdue by '' @ str_int \<bar>days_until\<bar> @ '' day(s)'']
           else if days_until = 0 then [''due today'']
           else if days_until \<le> 3 then [''due in '' @ str_int days_until @ '' day(s)'']
           else []))"

definition generate_suggestion_reason :: "pyenv \<Rightarrow> scored_task \<Rightarrow> nat \<Rightarrow> py_error + string" where
  "generate_suggestion_reason env t rank =
     (let score = priority_score t;
          ex = explanation t;
          reasons0 = due_reasons env (parse_date env (dict_get (due_date t)))
      in case py_ge_int (dict_get_default (importance t) (PInt 5)) 8 of
           Inl e \<Rightarrow> Inl e
         | Inr important \<Rightarrow>
             (let reasons1 = (if important then reasons0 @ [''marked as highly important'']
                              else reasons0)
              in case py_le_int (dict_get_default (estimated_hours t) (PInt 4)) 2 of
                   Inl e \<Rightarrow> Inl e
                 | Inr quick \<Rightarrow>
                     (let reasons2 = (if quick
                                      then reasons1 @ [''a quick win you can complete fast'']
                                      else reasons1);
                          reasons = (if str_contains ''Blocks'' ex
                                     then reasons2 @ [''blocking other tasks from starting'']
                                     else reasons2);
                          head = ''#'' @ str_nat rank @ '' Priority (Score: '' @
                                 float_repr env score @ ''): ''
                      in if reasons \<noteq> [] then
                           Inr (head @ py_capitalize (py_join '', '' reasons) @ ''.'')
                         else
                           Inr (head @ ''Good balance of urgency, importance, and effort.''))))"

record suggestion =
  rank :: nat
  task :: scored_task
  reason :: string

text \<open>\<^verbatim>\<open>xs[:count]\<close>; a negative count is taken from the end.\<close>

definition py_slice_to :: "int \<Rightarrow> 'a list \<Rightarrow> 'a list" where
  "py_slice_to cnt xs =
     (if 0 \<le> cnt then take (nat cnt) xs else take (nat (int (length xs) + cnt)) xs)"

fun suggest_loop ::
  "pyenv \<Rightarrow> scored_task list \<Rightarrow> nat \<Rightarrow> suggestion list \<Rightarrow> py_error + suggestion list" where
  "suggest_loop env [] i suggestions = Inr suggestions"
| "suggest_loop env (t # ts) i suggestions =
     (case generate_suggestion_reason env t i of
        Inl e \<Rightarrow> Inl e
      | Inr r \<Rightarrow> suggest_loop env ts (Suc i) (suggestions @ [\<lparr>rank = i, task = t, reason = r\<rparr>]))"

definition get_suggestions ::
  "pyenv \<Rightarrow> task list \<Rightarrow> string \<Rightarrow> int \<Rightarrow> py_error + suggestion list" where
  "get_suggestions env ts strategy cnt =
     (case analyze_tasks env ts strategy of
        Inl e \<Rightarrow> Inl e
      | Inr a \<Rightarrow> suggest_loop env (py_slice_to cnt (tasks a)) 1 [])"

section \<open>Vocabulary of the statements\<close>

text \<open>
  The dependencies a task declares: the ids of a list under \<^verbatim>\<open>'dependencies'\<close>, and none
  when the key is missing or holds anything but a list.
\<close>

definition declared_dependencies :: "'a task_scheme \<Rightarrow> int list" where
  "declared_dependencies t = (case dependencies t of Some (PList xs) \<Rightarrow> xs | _ \<Rightarrow> [])"

text \<open>A concrete environment and a task constructor, for instances of the theorems.\<close>

definition example_env :: pyenv where
  "example_env = \<lparr>today = 100, strptime_ymd = (\<lambda>s. None), fromisoformat = (\<lambda>s. None),
     float_of_str = (\<lambda>s. None), float_repr = (\<lambda>r. ''?'')\<rparr>"

definition mk_task ::
  "int \<Rightarrow> pyval option \<Rightarrow> pyval option \<Rightarrow> pyval option \<Rightarrow> pyval option \<Rightarrow> task" where
  "mk_task i due hours imp deps =
     \<lparr>task_id = Some i, title = None, due_date = due, estimated_hours = hours,
      importance = imp, dependencies = deps\<rparr>"


text \<open>
  Two relations on the state of the search: what a call that returns leaves unchanged or
  only enlarges, and the fact that the self-dependency of task \<open>i\<close> has been recorded
  once the search has left \<open>i\<close>.
\<close>

definition dfs_extends :: "dfs_state \<Rightarrow> dfs_state \<Rightarrow> bool" where
  "dfs_extends st st' \<longleftrightarrow>
     rec_stack st' = rec_stack st \<and> visited st \<subseteq> visited st' \<and>
     set (cycles st) \<subseteq> set (cycles st')"


text \<open>
  A scored task belongs to an input task: it is the task's copy, with the score, the
  explanation and the level the analysis computes for it within the task list.
\<close>

definition scored_as :: "pyenv \<Rightarrow> task list \<Rightarrow> string \<Rightarrow> task \<Rightarrow> scored_task \<Rightarrow> bool" where
  "scored_as env all_tasks strategy t x \<longleftrightarrow>
     task.truncate x = t \<and>
     calculate_priority_score env t (Some all_tasks) strategy = Inr (priority_score x) \<and>
     get_score_explanation env t (Some all_tasks) strategy = Inr (explanation x) \<and>
     priority_level x = level_of (priority_score x)"

section \<open>Properties of the scorers\<close>

lemma deps_list_eq:
  "(if is_list (or_default (dict_get (dependencies t)) (PList []))
    then list_or_empty (or_default (dict_get (dependencies t)) (PList []))
    else []) = declared_dependencies t"
  by (cases "dependencies t")
     (auto simp: declared_dependencies_def or_default_def dict_get_def split: pyval.splits)

lemma count_blocking_eq:
  "count_blocking i ts n = n + length (filter (\<lambda>other. id_in i (declared_dependencies other)) ts)"
proof (induction ts arbitrary: n)
  case Nil
  then show ?case by simp
next
  case (Cons a ts)
  have "(is_list (or_default (dict_get (dependencies a)) (PList [])) \<and>
         id_in i (list_or_empty (or_default (dict_get (dependencies a)) (PList [])))) =
        id_in i (declared_dependencies a)"
    by (cases "dependencies a")
       (auto simp: declared_dependencies_def or_default_def dict_get_def id_in_def
             split: pyval.splits option.splits)
  then show ?case using Cons by (simp add: Let_def)
qed

text \<open>
  Claim C1. A task that declares at least one dependency has dependency score 20, whether
  or not the ids it lists belong to the task set. A task that declares none is scored by
  its blocking count, the number of tasks of the set whose declared dependencies contain
  its id: 100 from three on, 80 for two, 60 for one, 40 for none.
\<close>

theorem dependency_score_table:
  "(declared_dependencies t \<noteq> [] \<longrightarrow> fst (calculate_dependency_score t all_tasks) = 20) \<and>
   (declared_dependencies t = [] \<longrightarrow>
      (let blocking_count =
             length (filter (\<lambda>other. id_in (task_id t) (declared_dependencies other)) all_tasks);
           score = fst (calculate_dependency_score t all_tasks)
       in (3 \<le> blocking_count \<longrightarrow> score = 100) \<and>
          (blocking_count = 2 \<longrightarrow> score = 80) \<and>
          (blocking_count = 1 \<longrightarrow> score = 60) \<and>
          (blocking_count = 0 \<longrightarrow> score = 40)))"
proof -
  have d: "(if is_list (or_default (dict_get (dependencies t)) DEFAULT_dependencies)
            then list_or_empty (or_default (dict_get (dependencies t)) DEFAULT_dependencies)
            else []) = declared_dependencies t"
    using deps_list_eq [of t] by (simp only: DEFAULT_dependencies_def)
  show ?thesis
    unfolding calculate_dependency_score_def Let_def d count_blocking_eq
    by auto
qed

text \<open>
  Claim C4. With \<open>d\<close> the days from today to a due date that parses, the urgency score is
  100 for \<open>d < 0\<close>, 95 for \<open>d = 0\<close>, \<open>94 - (d - 1) * 5\<close> for 1 to 3 days,
  \<open>79 - (d - 4) * 7\<close> for 4 to 7, \<open>49 - (d - 8) * 3\<close> for 8 to 14 and
  \<open>max 10 (29 - (d - 15))\<close> beyond; it is 50 when the due date is missing or does not
  parse.
\<close>

theorem urgency_score_table:
  "(parse_date env (dict_get (due_date t)) = None \<longrightarrow>
      fst (calculate_urgency_score env t) = 50) \<and>
   (\<forall>dd. parse_date env (dict_get (due_date t)) = Some dd \<longrightarrow>
      (let d = dd - today env; score = fst (calculate_urgency_score env t)
       in (d < 0 \<longrightarrow> score = 100) \<and>
          (d = 0 \<longrightarrow> score = 95) \<and>
          (1 \<le> d \<and> d \<le> 3 \<longrightarrow> score = real_of_int (94 - (d - 1) * 5)) \<and>
          (4 \<le> d \<and> d \<le> 7 \<longrightarrow> score = real_of_int (79 - (d - 4) * 7)) \<and>
          (8 \<le> d \<and> d \<le> 14 \<longrightarrow> score = real_of_int (49 - (d - 8) * 3)) \<and>
          (14 < d \<longrightarrow> score = real_of_int (max 10 (29 - (d - 15))))))"
  by (auto simp: calculate_urgency_score_def Let_def)

theorem dependency_score_table_witness:
  "fst (calculate_dependency_score (mk_task 1 None None None (Some (PList [99])))
          [mk_task 1 None None None (Some (PList [99])),
           mk_task 2 None None None (Some (PList [1]))]) = 20 \<and>
   fst (calculate_dependency_score (mk_task 2 None None None None)
          [mk_task 1 None None None (Some (PList [2])),
           mk_task 2 None None None None,
           mk_task 3 None None None (Some (PStr ''2''))]) = 60"
  using dependency_score_table [of "mk_task 1 None None None (Some (PList [99]))"
          "[mk_task 1 None None None (Some (PList [99])),
            mk_task 2 None None None (Some (PList [1]))]"]
        dependency_score_table [of "mk_task 2 None None None None"
          "[mk_task 1 None None None (Some (PList [2])),
            mk_task 2 None None None None,
            mk_task 3 None None None (Some (PStr ''2''))]"]
  by (simp add: mk_task_def declared_dependencies_def id_in_def)

theorem urgency_score_table_witness:
  "fst (calculate_urgency_score example_env (mk_task 1 (Some (PDate 105)) None None None)) = 72 \<and>
   fst (calculate_urgency_score example_env (mk_task 1 (Some (PStr ''soon'')) None None None)) = 50"
  using urgency_score_table [of example_env "mk_task 1 (Some (PDate 105)) None None None"]
        urgency_score_table [of example_env "mk_task 1 (Some (PStr ''soon'')) None None None"]
  by (simp add: mk_task_def example_env_def dict_get_def)

lemma py_round_lower:
  assumes "real_of_int k \<le> x * 10 ^ nd"
  shows "real_of_int k / 10 ^ nd \<le> py_round x nd"
proof -
  have "k \<le> \<lfloor>x * 10 ^ nd\<rfloor>" using assms by (simp add: le_floor_iff)
  then have "real_of_int k \<le> real_of_int (if x * 10 ^ nd - real_of_int \<lfloor>x * 10 ^ nd\<rfloor> < 1 / 2 then \<lfloor>x * 10 ^ nd\<rfloor>
               else if 1 / 2 < x * 10 ^ nd - real_of_int \<lfloor>x * 10 ^ nd\<rfloor> then \<lfloor>x * 10 ^ nd\<rfloor> + 1
               else if even \<lfloor>x * 10 ^ nd\<rfloor> then \<lfloor>x * 10 ^ nd\<rfloor> else \<lfloor>x * 10 ^ nd\<rfloor> + 1)"
    by auto
  then show ?thesis
    unfolding py_round_def Let_def by (rule divide_right_mono) simp
qed

lemma py_round_upper:
  assumes "x * 10 ^ nd \<le> real_of_int k"
  shows "py_round x nd \<le> real_of_int k / 10 ^ nd"
proof -
  let ?y = "x * 10 ^ nd"
  have f: "\<lfloor>?y\<rfloor> \<le> k" using assms by (simp add: floor_le_iff)
  have g: "1 / 2 \<le> ?y - real_of_int \<lfloor>?y\<rfloor> \<Longrightarrow> \<lfloor>?y\<rfloor> + 1 \<le> k"
    using assms by linarith
  have "real_of_int (if ?y - real_of_int \<lfloor>?y\<rfloor> < 1 / 2 then \<lfloor>?y\<rfloor>
               else if 1 / 2 < ?y - real_of_int \<lfloor>?y\<rfloor> then \<lfloor>?y\<rfloor> + 1
               else if even \<lfloor>?y\<rfloor> then \<lfloor>?y\<rfloor> else \<lfloor>?y\<rfloor> + 1) \<le> real_of_int k"
    using f g by auto
  then show ?thesis
    unfolding py_round_def Let_def by (rule divide_right_mono) simp
qed

lemma urgency_bounds:
  "10 \<le> fst (calculate_urgency_score env t) \<and> fst (calculate_urgency_score env t) \<le> 100"
  by (auto simp: calculate_urgency_score_def Let_def split: option.splits)

lemma importance_bounds:
  assumes "calculate_importance_score env t = Inr r"
  shows "10 \<le> fst r \<and> fst r \<le> 100"
  using assms
  by (auto simp: calculate_importance_score_def importance_result_def Let_def
           split: sum.splits if_splits)

lemma importance_error:
  assumes "calculate_importance_score env t = Inl e"
  shows "e = OverflowError"
proof -
  have "py_float env v = Inl e' \<Longrightarrow> e' = TypeError \<or> e' = ValueError \<or> e' = OverflowError" for v e'
    by (cases v) (auto split: if_splits option.splits)
  then show ?thesis using assms
    by (auto simp: calculate_importance_score_def Let_def split: sum.splits if_splits)
qed

lemma effort_result_bounds:
  "10 \<le> fst (effort_result h shown) \<and> fst (effort_result h shown) \<le> 100"
  by (auto simp: effort_result_def; argo)

lemma effort_bounds:
  assumes "calculate_effort_score env t = Inr r"
  shows "10 \<le> fst r \<and> fst r \<le> 100"
  using assms effort_result_bounds
  by (auto simp: calculate_effort_score_def Let_def split: sum.splits if_splits)

lemma effort_error:
  assumes "calculate_effort_score env t = Inl e"
  shows "e = OverflowError"
proof -
  have "py_float env v = Inl e' \<Longrightarrow> e' = TypeError \<or> e' = ValueError \<or> e' = OverflowError" for v e'
    by (cases v) (auto split: if_splits option.splits)
  then show ?thesis using assms
    by (auto simp: calculate_effort_score_def Let_def split: sum.splits if_splits)
qed

lemma dependency_bounds:
  "20 \<le> fst (calculate_dependency_score t all_tasks) \<and>
   fst (calculate_dependency_score t all_tasks) \<le> 100"
  by (auto simp: calculate_dependency_score_def Let_def)

lemma get_weights_cases:
  "get_weights s = \<lparr>w_urgency = 35 / 100, w_importance = 30 / 100, w_effort = 15 / 100, w_dependencies = 20 / 100\<rparr> \<or>
   get_weights s = \<lparr>w_urgency = 15 / 100, w_importance = 15 / 100, w_effort = 55 / 100, w_dependencies = 15 / 100\<rparr> \<or>
   get_weights s = \<lparr>w_urgency = 15 / 100, w_importance = 60 / 100, w_effort = 10 / 100, w_dependencies = 15 / 100\<rparr> \<or>
   get_weights s = \<lparr>w_urgency = 60 / 100, w_importance = 15 / 100, w_effort = 10 / 100, w_dependencies = 15 / 100\<rparr>"
  by (simp add: get_weights_def STRATEGY_WEIGHTS_def smart_balance_weights_def)

lemma blend_bounds:
  assumes "10 \<le> u" "u \<le> 100" "10 \<le> i" "i \<le> 100" "10 \<le> e" "e \<le> 100" "20 \<le> d" "d \<le> 100"
  shows "10 \<le> u * w_urgency (get_weights s) + i * w_importance (get_weights s) +
               e * w_effort (get_weights s) + d * w_dependencies (get_weights s)"
    and "u * w_urgency (get_weights s) + i * w_importance (get_weights s) +
               e * w_effort (get_weights s) + d * w_dependencies (get_weights s) \<le> 100"
  using assms get_weights_cases [of s] by auto

lemma priority_cases:
  "(\<exists>e. calculate_priority_score env t all_tasks strategy = Inl e \<and>
        (calculate_importance_score env t = Inl e \<or> calculate_effort_score env t = Inl e)) \<or>
   (\<exists>i e. calculate_importance_score env t = Inr i \<and> calculate_effort_score env t = Inr e \<and>
      calculate_priority_score env t all_tasks strategy =
        Inr (py_round
          (fst (calculate_urgency_score env t) * w_urgency (get_weights strategy) +
           fst i * w_importance (get_weights strategy) +
           fst e * w_effort (get_weights strategy) +
           fst (calculate_dependency_score t (case all_tasks of None \<Rightarrow> [] | Some ts \<Rightarrow> ts)) *
             w_dependencies (get_weights strategy)) 2))"
  by (auto simp: calculate_priority_score_def Let_def split: sum.splits prod.splits)

lemma priority_bounds:
  assumes "calculate_priority_score env t all_tasks strategy = Inr p"
  shows "10 \<le> p \<and> p \<le> 100"
proof -
  from priority_cases [of env t all_tasks strategy] assms
  obtain i e where i: "calculate_importance_score env t = Inr i"
    and e: "calculate_effort_score env t = Inr e"
    and p: "p = py_round
          (fst (calculate_urgency_score env t) * w_urgency (get_weights strategy) +
           fst i * w_importance (get_weights strategy) +
           fst e * w_effort (get_weights strategy) +
           fst (calculate_dependency_score t (case all_tasks of None \<Rightarrow> [] | Some ts \<Rightarrow> ts)) *
             w_dependencies (get_weights strategy)) 2" (is "p = py_round ?x 2")
    by auto
  define x where "x = ?x"
  have ub: "10 \<le> fst (calculate_urgency_score env t)" "fst (calculate_urgency_score env t) \<le> 100"
    using urgency_bounds [of env t] by simp_all
  have ib: "10 \<le> fst i" "fst i \<le> 100" using importance_bounds [OF i] by simp_all
  have eb: "10 \<le> fst e" "fst e \<le> 100" using effort_bounds [OF e] by simp_all
  have db: "20 \<le> fst (calculate_dependency_score t (case all_tasks of None \<Rightarrow> [] | Some ts \<Rightarrow> ts))"
    "fst (calculate_dependency_score t (case all_tasks of None \<Rightarrow> [] | Some ts \<Rightarrow> ts)) \<le> 100"
    using dependency_bounds [of t "case all_tasks of None \<Rightarrow> [] | Some ts \<Rightarrow> ts"] by simp_all
  have b: "10 \<le> x" "x \<le> 100"
    unfolding x_def
    using blend_bounds [OF ub ib eb db, of strategy] by simp_all
  have "real_of_int 1000 \<le> x * 10 ^ 2" using b(1) by simp
  from py_round_lower [OF this] have lo: "10 \<le> py_round x 2" by simp
  have "x * 10 ^ 2 \<le> real_of_int 10000" using b(2) by simp
  from py_round_upper [OF this] have hi: "py_round x 2 \<le> 100" by simp
  have p: "p = py_round x 2" using p by (simp add: x_def)
  show ?thesis using lo hi p by simp
qed

lemma priority_error:
  assumes "calculate_priority_score env t all_tasks strategy = Inl e"
  shows "e = OverflowError"
  using priority_cases [of env t all_tasks strategy] assms importance_error effort_error
  by auto

text \<open>
  Claim C6. Every component score and the blended priority score lie between 0 and 100,
  for every task, task set and strategy name. The importance and effort scorers, and with
  them the blend, return a score unless \<^verbatim>\<open>float\<close> overflows on an integer field.
\<close>

theorem scores_in_range:
  "0 \<le> fst (calculate_urgency_score env t) \<and> fst (calculate_urgency_score env t) \<le> 100 \<and>
   (case calculate_importance_score env t of
      Inr r \<Rightarrow> 0 \<le> fst r \<and> fst r \<le> 100 | Inl e \<Rightarrow> e = OverflowError) \<and>
   (case calculate_effort_score env t of
      Inr r \<Rightarrow> 0 \<le> fst r \<and> fst r \<le> 100 | Inl e \<Rightarrow> e = OverflowError) \<and>
   0 \<le> fst (calculate_dependency_score t all_tasks) \<and>
   fst (calculate_dependency_score t all_tasks) \<le> 100 \<and>
   (case calculate_priority_score env t (Some all_tasks) strategy of
      Inr p \<Rightarrow> 0 \<le> p \<and> p \<le> 100 | Inl e \<Rightarrow> e = OverflowError)"
proof -
  have u: "0 \<le> fst (calculate_urgency_score env t) \<and> fst (calculate_urgency_score env t) \<le> 100"
    using urgency_bounds [of env t] by linarith
  have d: "0 \<le> fst (calculate_dependency_score t all_tasks) \<and>
           fst (calculate_dependency_score t all_tasks) \<le> 100"
    using dependency_bounds [of t all_tasks] by linarith
  have i: "case calculate_importance_score env t of
      Inr r \<Rightarrow> 0 \<le> fst r \<and> fst r \<le> 100 | Inl e \<Rightarrow> e = OverflowError"
  proof (cases "calculate_importance_score env t")
    case (Inl e) then show ?thesis using importance_error by simp
  next
    case (Inr r) then show ?thesis using importance_bounds [OF Inr] by simp
  qed
  have e: "case calculate_effort_score env t of
      Inr r \<Rightarrow> 0 \<le> fst r \<and> fst r \<le> 100 | Inl e \<Rightarrow> e = OverflowError"
  proof (cases "calculate_effort_score env t")
    case (Inl e) then show ?thesis using effort_error by simp
  next
    case (Inr r) then show ?thesis using effort_bounds [OF Inr] by simp
  qed
  have p: "case calculate_priority_score env t (Some all_tasks) strategy of
      Inr p \<Rightarrow> 0 \<le> p \<and> p \<le> 100 | Inl e \<Rightarrow> e = OverflowError"
  proof (cases "calculate_priority_score env t (Some all_tasks) strategy")
    case (Inl e) then show ?thesis using priority_error by simp
  next
    case (Inr r) then show ?thesis using priority_bounds [OF Inr] by simp
  qed
  show ?thesis using u d i e p by blast
qed

text \<open>
  Claim C9. The urgency, importance and effort scores are at least 10 and the dependency
  score at least 20, so the blended priority score is at least 10 under every strategy
  name (each resolves to one of the four presets).
\<close>

theorem scores_at_least_ten:
  "10 \<le> fst (calculate_urgency_score env t) \<and>
   (\<forall>s ex. calculate_importance_score env t = Inr (s, ex) \<longrightarrow> 10 \<le> s) \<and>
   (\<forall>s ex. calculate_effort_score env t = Inr (s, ex) \<longrightarrow> 10 \<le> s) \<and>
   20 \<le> fst (calculate_dependency_score t all_tasks) \<and>
   (\<forall>p. calculate_priority_score env t (Some all_tasks) strategy = Inr p \<longrightarrow> 10 \<le> p)"
  using urgency_bounds [of env t] dependency_bounds [of t all_tasks]
    importance_bounds [of env t] effort_bounds [of env t]
    priority_bounds [of env t "Some all_tasks" strategy]
  by auto

theorem scores_at_least_ten_witness:
  "10 \<le> fst (calculate_urgency_score example_env (mk_task 1 None None None None)) \<and>
   calculate_priority_score example_env (mk_task 1 None None None None)
      (Some [mk_task 1 None None None None]) ''smart_balance'' = Inr 51 \<and> (10::real) \<le> 51"
proof -
  have "calculate_priority_score example_env (mk_task 1 None None None None)
      (Some [mk_task 1 None None None None]) ''smart_balance'' = Inr 51"
    by (simp add: calculate_priority_score_def calculate_urgency_score_def
        calculate_importance_score_def calculate_effort_score_def calculate_dependency_score_def
        importance_result_def effort_result_def get_weights_def STRATEGY_WEIGHTS_def
        DEFAULT_importance_def DEFAULT_estimated_hours_def DEFAULT_dependencies_def
        float_overflow_bound_def or_default_def id_in_def
        mk_task_def example_env_def dict_get_def py_round_def Let_def)
  then show ?thesis
    using scores_at_least_ten [of example_env "mk_task 1 None None None None"
        "[mk_task 1 None None None None]" "''smart_balance''"]
    by simp
qed

lemma effort_result_mono:
  assumes "h1 \<le> h2"
  shows "fst (effort_result h2 s2) \<le> fst (effort_result h1 s1)"
  using assms by (auto simp: effort_result_def; argo)

lemma effort_of_float:
  assumes "py_float env (dict_get (estimated_hours t)) = Inr h"
  shows "calculate_effort_score env t =
           Inr (effort_result (max (5 / 10) h) (float_repr env (max (5 / 10) h)))"
proof -
  have "dict_get (estimated_hours t) \<noteq> PNone" using assms by auto
  then show ?thesis using assms
    by (simp add: calculate_effort_score_def Let_def)
qed

lemma urgency_mono:
  assumes "parse_date env (dict_get (due_date t1)) = Some d1"
    and "parse_date env (dict_get (due_date t2)) = Some d2"
    and "d1 \<le> d2"
  shows "fst (calculate_urgency_score env t2) \<le> fst (calculate_urgency_score env t1)"
  using assms by (auto simp: calculate_urgency_score_def Let_def)

text \<open>
  Claim C10. For a fixed today the urgency score does not increase when the due date moves
  later, an overdue task has the maximal urgency 100, and the effort score does not
  increase when the estimated hours grow.
\<close>

theorem component_scores_monotone:
  "(\<forall>d1 d2. parse_date env (dict_get (due_date t1)) = Some d1 \<and>
            parse_date env (dict_get (due_date t2)) = Some d2 \<and> d1 \<le> d2 \<longrightarrow>
        fst (calculate_urgency_score env t2) \<le> fst (calculate_urgency_score env t1)) \<and>
   (\<forall>d1. parse_date env (dict_get (due_date t1)) = Some d1 \<and> d1 < today env \<longrightarrow>
        fst (calculate_urgency_score env t1) = 100) \<and>
   fst (calculate_urgency_score env t2) \<le> 100 \<and>
   (\<forall>h1 h2. py_float env (dict_get (estimated_hours t1)) = Inr h1 \<and>
            py_float env (dict_get (estimated_hours t2)) = Inr h2 \<and> h1 \<le> h2 \<longrightarrow>
        (\<exists>r1 r2. calculate_effort_score env t1 = Inr r1 \<and>
                 calculate_effort_score env t2 = Inr r2 \<and> fst r2 \<le> fst r1))"
proof -
  have a: "\<forall>d1 d2. parse_date env (dict_get (due_date t1)) = Some d1 \<and>
            parse_date env (dict_get (due_date t2)) = Some d2 \<and> d1 \<le> d2 \<longrightarrow>
        fst (calculate_urgency_score env t2) \<le> fst (calculate_urgency_score env t1)"
    using urgency_mono by blast
  have b: "\<forall>d1. parse_date env (dict_get (due_date t1)) = Some d1 \<and> d1 < today env \<longrightarrow>
        fst (calculate_urgency_score env t1) = 100"
    by (auto simp: calculate_urgency_score_def Let_def)
  have c: "fst (calculate_urgency_score env t2) \<le> 100"
    using urgency_bounds [of env t2] by simp
  have d: "\<forall>h1 h2. py_float env (dict_get (estimated_hours t1)) = Inr h1 \<and>
            py_float env (dict_get (estimated_hours t2)) = Inr h2 \<and> h1 \<le> h2 \<longrightarrow>
        (\<exists>r1 r2. calculate_effort_score env t1 = Inr r1 \<and>
                 calculate_effort_score env t2 = Inr r2 \<and> fst r2 \<le> fst r1)"
  proof (intro allI impI)
    fix h1 h2 :: real
    assume h: "py_float env (dict_get (estimated_hours t1)) = Inr h1 \<and>
            py_float env (dict_get (estimated_hours t2)) = Inr h2 \<and> h1 \<le> h2"
    then have "max (5 / 10) h1 \<le> max (5 / 10) h2" by auto
    from effort_result_mono [OF this] show "\<exists>r1 r2. calculate_effort_score env t1 = Inr r1 \<and>
                 calculate_effort_score env t2 = Inr r2 \<and> fst r2 \<le> fst r1"
      using h effort_of_float [of env t1 h1] effort_of_float [of env t2 h2] by simp
  qed
  show ?thesis using a b c d by blast
qed

theorem component_scores_monotone_witness:
  "fst (calculate_urgency_score example_env (mk_task 2 (Some (PDate 110)) (Some (PFloat 20)) None None))
     \<le> fst (calculate_urgency_score example_env (mk_task 1 (Some (PDate 101)) (Some (PInt 2)) None None)) \<and>
   fst (calculate_urgency_score example_env (mk_task 1 (Some (PDate 99)) (Some (PInt 2)) None None)) = 100 \<and>
   (\<exists>r1 r2. calculate_effort_score example_env
                (mk_task 1 (Some (PDate 101)) (Some (PInt 2)) None None) = Inr r1 \<and>
            calculate_effort_score example_env
                (mk_task 2 (Some (PDate 110)) (Some (PFloat 20)) None None) = Inr r2 \<and>
            fst r2 \<le> fst r1)"
  using component_scores_monotone [of example_env
          "mk_task 1 (Some (PDate 101)) (Some (PInt 2)) None None"
          "mk_task 2 (Some (PDate 110)) (Some (PFloat 20)) None None"]
        component_scores_monotone [of example_env
          "mk_task 1 (Some (PDate 99)) (Some (PInt 2)) None None"
          "mk_task 2 (Some (PDate 110)) (Some (PFloat 20)) None None"]
  by (simp add: mk_task_def example_env_def dict_get_def float_overflow_bound_def)

lemma get_weights_unknown:
  assumes "strategy \<notin> {''smart_balance'', ''quick_wins'', ''high_impact'', ''deadline_driven''}"
  shows "get_weights strategy = get_weights ''smart_balance''"
  using assms
  by (simp add: get_weights_def STRATEGY_WEIGHTS_def smart_balance_weights_def)

lemma effective_strategy_unknown:
  assumes "strategy \<notin> {''smart_balance'', ''quick_wins'', ''high_impact'', ''deadline_driven''}"
  shows "(if strategy \<notin> set (map fst STRATEGY_WEIGHTS) then ''smart_balance'' else strategy)
           = ''smart_balance''"
  using assms by (simp add: STRATEGY_WEIGHTS_def)

text \<open>
  Claim C7. A strategy name that is none of the four presets gives the same score, the
  same explanation and the same analysis as \<^verbatim>\<open>smart_balance\<close>, and the analysis reports
  \<^verbatim>\<open>smart_balance\<close> as the strategy used.
\<close>

theorem unknown_strategy_is_smart_balance:
  assumes "strategy \<notin> {''smart_balance'', ''quick_wins'', ''high_impact'', ''deadline_driven''}"
  shows "calculate_priority_score env t all_tasks strategy =
           calculate_priority_score env t all_tasks ''smart_balance'' \<and>
         get_score_explanation env t all_tasks strategy =
           get_score_explanation env t all_tasks ''smart_balance'' \<and>
         analyze_tasks env ts strategy = analyze_tasks env ts ''smart_balance'' \<and>
         (\<forall>a. analyze_tasks env ts strategy = Inr a \<longrightarrow> strategy_used a = ''smart_balance'')"
proof -
  have s: "calculate_priority_score env t all_tasks strategy =
           calculate_priority_score env t all_tasks ''smart_balance''"
    by (simp add: calculate_priority_score_def get_weights_unknown [OF assms])
  have x: "get_score_explanation env t all_tasks strategy =
           get_score_explanation env t all_tasks ''smart_balance''"
    by (simp add: get_score_explanation_def get_weights_unknown [OF assms])
  have e: "(if ''smart_balance'' \<notin> set (map fst STRATEGY_WEIGHTS) then ''smart_balance''
            else ''smart_balance'') = ''smart_balance''"
    by simp
  have a: "analyze_tasks env ts strategy = analyze_tasks env ts ''smart_balance''"
    unfolding analyze_tasks_def effective_strategy_unknown [OF assms] e ..
  have u: "\<forall>a. analyze_tasks env ts strategy = Inr a \<longrightarrow> strategy_used a = ''smart_balance''"
    unfolding analyze_tasks_def effective_strategy_unknown [OF assms]
    by (auto simp: Let_def split: option.splits sum.splits)
  show ?thesis using s x a u by blast
qed

theorem unknown_strategy_is_smart_balance_witness:
  "calculate_priority_score example_env (mk_task 1 None None None None)
       (None :: task list option) ''fastest'' =
     calculate_priority_score example_env (mk_task 1 None None None None)
       (None :: task list option) ''smart_balance'' \<and>
   analyze_tasks example_env [mk_task 1 None None None None] ''fastest'' =
     analyze_tasks example_env [mk_task 1 None None None None] ''smart_balance''"
proof -
  have "''fastest'' \<notin> {''smart_balance'', ''quick_wins'', ''high_impact'', ''deadline_driven''}"
    by simp
  from unknown_strategy_is_smart_balance [OF this, of example_env
          "mk_task 1 None None None None" "None :: task list option"
          "[mk_task 1 None None None None]"]
  show ?thesis by blast
qed



section \<open>Cycle detection: termination and self-dependencies\<close>

lemma dfs_extends_refl: "dfs_extends st st"
  by (simp add: dfs_extends_def)

lemma dfs_extends_trans: "dfs_extends a b \<Longrightarrow> dfs_extends b c \<Longrightarrow> dfs_extends a c"
  by (auto simp: dfs_extends_def)

lemma neighbors_extends_step:
  assumes step: "\<And>node path st st'. dfs d g node path st = Some st' \<Longrightarrow> dfs_extends st st'"
  shows "dfs_neighbors d g nbs path st = Some st' \<Longrightarrow> dfs_extends st st'"
proof (induction nbs arbitrary: st)
  case Nil
  then show ?case by (simp add: dfs_extends_refl)
next
  case (Cons nb nbs)
  show ?case
  proof (cases "in_graph g (Some nb)")
    case True
    with Cons.prems obtain st1 where a: "dfs d g (Some nb) path st = Some st1"
      and b: "dfs_neighbors d g nbs path st1 = Some st'"
      by (auto split: option.splits)
    from step [OF a] Cons.IH [OF b] show ?thesis by (rule dfs_extends_trans)
  next
    case False
    with Cons show ?thesis by simp
  qed
qed

lemma dfs_extends_dfs: "dfs d g node path st = Some st' \<Longrightarrow> dfs_extends st st'"
proof (induction d arbitrary: node path st st')
  case 0
  then show ?case by simp
next
  case (Suc d)
  show ?case
  proof (cases "node \<in> rec_stack st \<or> node \<in> visited st")
    case True
    with Suc.prems show ?thesis by (auto simp: dfs_extends_def split: if_splits)
  next
    case False
    let ?st1 = "st\<lparr>visited := insert node (visited st), rec_stack := insert node (rec_stack st)\<rparr>"
    from False Suc.prems obtain st2 where
      a: "dfs_neighbors d g (graph_get g node) (path @ [node]) ?st1 = Some st2"
      and b: "st' = st2\<lparr>rec_stack := rec_stack st2 - {node}\<rparr>"
      by (auto simp: Let_def split: option.splits)
    have "dfs_extends ?st1 st2"
      using neighbors_extends_step [OF Suc.IH a] .
    with False b show ?thesis by (auto simp: dfs_extends_def)
  qed
qed






lemma finite_keys: "finite {k. in_graph g k}"
proof -
  have "{k. in_graph g k} = dom (map_of g)" by (auto simp: in_graph_def)
  then show ?thesis by (simp add: finite_dom_map_of)
qed

lemma card_keys: "card {k. in_graph g k} \<le> length g"
proof -
  have "{k. in_graph g k} = fst ` set g"
    by (auto simp: in_graph_def map_of_eq_None_iff)
  then show ?thesis
    by (metis card_image_le card_length le_trans List.finite_set)
qed

lemma neighbors_returns_step:
  assumes step: "\<And>node path st. in_graph g node \<Longrightarrow> card ({k. in_graph g k} - visited st) < d \<Longrightarrow>
                   \<exists>st'. dfs d g node path st = Some st'"
  shows "card ({k. in_graph g k} - visited st) < d \<Longrightarrow>
         \<exists>st'. dfs_neighbors d g nbs path st = Some st'"
proof (induction nbs arbitrary: st)
  case Nil
  then show ?case by simp
next
  case (Cons nb nbs)
  show ?case
  proof (cases "in_graph g (Some nb)")
    case True
    from step [OF True Cons.prems] obtain st1 where a: "dfs d g (Some nb) path st = Some st1"
      by blast
    have "visited st \<subseteq> visited st1"
      using dfs_extends_dfs [OF a] by (simp add: dfs_extends_def)
    then have "{k. in_graph g k} - visited st1 \<subseteq> {k. in_graph g k} - visited st" by blast
    then have "card ({k. in_graph g k} - visited st1) \<le> card ({k. in_graph g k} - visited st)"
      by (intro card_mono finite_Diff finite_keys)
    with Cons.prems have "card ({k. in_graph g k} - visited st1) < d" by simp
    from Cons.IH [OF this] a True show ?thesis by simp
  next
    case False
    with Cons show ?thesis by simp
  qed
qed

lemma dfs_returns:
  "in_graph g node \<Longrightarrow> card ({k. in_graph g k} - visited st) < d \<Longrightarrow>
   \<exists>st'. dfs d g node path st = Some st'"
proof (induction d arbitrary: node path st)
  case 0
  then show ?case by simp
next
  case (Suc d)
  show ?case
  proof (cases "node \<in> rec_stack st \<or> node \<in> visited st")
    case True
    then show ?thesis by auto
  next
    case False
    let ?st1 = "st\<lparr>visited := insert node (visited st), rec_stack := insert node (rec_stack st)\<rparr>"
    have mem: "node \<in> {k. in_graph g k} - visited st" using Suc.prems(1) False by simp
    have "{k. in_graph g k} - visited ?st1 = ({k. in_graph g k} - visited st) - {node}"
      by auto
    then have "card ({k. in_graph g k} - visited ?st1) = card ({k. in_graph g k} - visited st) - 1"
      using mem by (simp add: finite_keys)
    moreover have "0 < card ({k. in_graph g k} - visited st)"
      using mem finite_keys [of g] by (metis card_gt_0_iff empty_iff finite_Diff)
    ultimately have "card ({k. in_graph g k} - visited ?st1) < d" using Suc.prems(2) by linarith
    from neighbors_returns_step [OF Suc.IH this]
    obtain st2 where "dfs_neighbors d g (graph_get g node) (path @ [node]) ?st1 = Some st2"
      by blast
    with False show ?thesis by (simp add: Let_def)
  qed
qed


lemma dfs_all_returns:
  assumes "\<forall>k \<in> set ks. in_graph g k" and "card {k. in_graph g k} < d"
  shows "\<exists>st'. dfs_all d g ks st = Some st'"
  using assms(1)
proof (induction ks arbitrary: st)
  case Nil
  then show ?case by simp
next
  case (Cons k ks)
  have "card ({k. in_graph g k} - visited st) \<le> card {k. in_graph g k}"
    by (intro card_mono finite_keys) blast
  with assms(2) have c: "card ({k. in_graph g k} - visited st) < d" by simp
  have "in_graph g k" using Cons.prems by simp
  from dfs_returns [OF this c] obtain st1 where a: "dfs d g k [] st = Some st1" by blast
  have ih: "\<exists>st'. dfs_all d g ks s = Some st'" for s
    using Cons.IH [of s] Cons.prems by simp
  show ?case using a ih [of st] ih [of st1] by simp
qed


lemma detect_circular_dependencies_returns:
  "\<exists>cs. detect_circular_dependencies ts = Some cs"
proof -
  let ?g = "build_graph ts []"
  have "\<forall>k \<in> set (map fst ?g). in_graph ?g k"
    by (auto simp: in_graph_def map_of_eq_None_iff)
  moreover have "card {k. in_graph ?g k} < Suc (length ?g)"
    using card_keys [of ?g] by simp
  ultimately obtain st' where
    "dfs_all (Suc (length ?g)) ?g (map fst ?g) \<lparr>cycles = [], visited = {}, rec_stack = {}\<rparr> = Some st'"
    using dfs_all_returns by blast
  then show ?thesis by (simp add: detect_circular_dependencies_def Let_def)
qed






lemma detect_self_dependency_example:
  "detect_circular_dependencies
           [mk_task 1 None None None (Some (PList [1])),
            mk_task 2 None None None (Some (PList [1]))] = Some [[Some 1, Some 1]]"
  by (simp add: detect_circular_dependencies_def mk_task_def or_default_def dict_get_def
      graph_get_def in_graph_def Let_def)

section \<open>Analysis: order, stability and levels\<close>

lemma scored_as_copy:
  assumes "calculate_priority_score env t (Some all_tasks) strategy = Inr p"
    and "get_score_explanation env t (Some all_tasks) strategy = Inr ex"
  shows "scored_as env all_tasks strategy t (task_copy_with t p ex (level_of p))"
  using assms by (simp add: scored_as_def task_copy_with_def task.truncate_def)

lemma score_all_spec:
  "score_all env ts all_tasks strategy acc = Inr r \<Longrightarrow>
   \<exists>r'. r = acc @ r' \<and> list_all2 (scored_as env all_tasks strategy) ts r'"
proof (induction ts arbitrary: acc r)
  case Nil
  then show ?case by simp
next
  case (Cons t ts)
  from Cons.prems obtain p ex where
    p: "calculate_priority_score env t (Some all_tasks) strategy = Inr p"
    and ex: "get_score_explanation env t (Some all_tasks) strategy = Inr ex"
    and rest: "score_all env ts all_tasks strategy
                 (acc @ [task_copy_with t p ex (level_of p)]) = Inr r"
    by (auto split: sum.splits)
  from Cons.IH [OF rest] obtain r' where
    "r = (acc @ [task_copy_with t p ex (level_of p)]) @ r'"
    and "list_all2 (scored_as env all_tasks strategy) ts r'"
    by blast
  then show ?case using scored_as_copy [OF p ex] by auto
qed

lemma explanation_error:
  assumes "get_score_explanation env t all_tasks strategy = Inl e"
  shows "calculate_importance_score env t = Inl e \<or> calculate_effort_score env t = Inl e"
  using assms
  by (auto simp: get_score_explanation_def Let_def split: sum.splits prod.splits)

lemma priority_error_source:
  assumes "calculate_priority_score env t all_tasks strategy = Inl e"
  shows "calculate_importance_score env t = Inl e \<or> calculate_effort_score env t = Inl e"
  using priority_cases [of env t all_tasks strategy] assms by auto

lemma score_all_error:
  "score_all env ts all_tasks strategy acc = Inl e \<Longrightarrow>
   \<exists>t \<in> set ts. calculate_importance_score env t = Inl e \<or> calculate_effort_score env t = Inl e"
proof (induction ts arbitrary: acc)
  case Nil
  then show ?case by simp
next
  case (Cons t ts)
  show ?case
  proof (cases "calculate_priority_score env t (Some all_tasks) strategy")
    case (Inl e')
    with Cons.prems have "e' = e" by simp
    with Inl priority_error_source show ?thesis by fastforce
  next
    case p: (Inr p)
    show ?thesis
    proof (cases "get_score_explanation env t (Some all_tasks) strategy")
      case (Inl e')
      with p Cons.prems have "e' = e" by simp
      with Inl explanation_error show ?thesis by fastforce
    next
      case (Inr ex)
      with p Cons.prems Cons.IH show ?thesis by auto
    qed
  qed
qed

lemma analyze_error_source:
  assumes "analyze_tasks env ts strategy = Inl e"
  shows "\<exists>t \<in> set ts. calculate_importance_score env t = Inl e \<or>
                      calculate_effort_score env t = Inl e"
proof -
  from detect_circular_dependencies_returns [of ts] obtain cs where
    "detect_circular_dependencies ts = Some cs" by blast
  with assms obtain s where "score_all env ts ts s [] = Inl e"
    by (auto simp: analyze_tasks_def Let_def split: sum.splits)
  from score_all_error [OF this] show ?thesis .
qed

lemma get_weights_effective:
  "get_weights (if s \<notin> set (map fst STRATEGY_WEIGHTS) then ''smart_balance'' else s)
     = get_weights s"
  by (simp add: get_weights_def STRATEGY_WEIGHTS_def smart_balance_weights_def)

lemma priority_effective:
  "calculate_priority_score env t all_tasks
     (if s \<notin> set (map fst STRATEGY_WEIGHTS) then ''smart_balance'' else s)
   = calculate_priority_score env t all_tasks s"
  unfolding calculate_priority_score_def get_weights_effective ..

lemma explanation_effective:
  "get_score_explanation env t all_tasks
     (if s \<notin> set (map fst STRATEGY_WEIGHTS) then ''smart_balance'' else s)
   = get_score_explanation env t all_tasks s"
  unfolding get_score_explanation_def get_weights_effective ..

lemma scored_as_effective:
  "scored_as env all_tasks (if s \<notin> set (map fst STRATEGY_WEIGHTS) then ''smart_balance'' else s)
     = scored_as env all_tasks s"
  unfolding scored_as_def priority_effective explanation_effective ..

lemma analyze_result:
  assumes "analyze_tasks env ts strategy = Inr a"
  shows "\<exists>scored. list_all2 (scored_as env ts strategy) ts scored \<and>
           tasks a = py_sort_desc priority_score scored \<and> total_tasks a = length ts"
proof -
  let ?s = "if strategy \<notin> set (map fst STRATEGY_WEIGHTS) then ''smart_balance'' else strategy"
  from assms obtain scored where s: "score_all env ts ts ?s [] = Inr scored"
    and t: "tasks a = py_sort_desc priority_score scored" and n: "total_tasks a = length ts"
    by (auto simp: analyze_tasks_def Let_def split: option.splits sum.splits)
  from score_all_spec [OF s] have "list_all2 (scored_as env ts strategy) ts scored"
    unfolding scored_as_effective by simp
  with t n show ?thesis by blast
qed










lemmas scorer_defs =
  calculate_priority_score_def calculate_urgency_score_def
  calculate_importance_score_def calculate_effort_score_def calculate_dependency_score_def
  importance_result_def effort_result_def get_weights_def STRATEGY_WEIGHTS_def
  DEFAULT_importance_def DEFAULT_estimated_hours_def DEFAULT_dependencies_def
  float_overflow_bound_def or_default_def id_in_def dict_get_def py_round_def Let_def


lemma reason_null_importance:
  assumes "importance x = Some PNone"
  shows "generate_suggestion_reason env x r = Inl TypeError"
  using assms by (simp add: generate_suggestion_reason_def dict_get_default_def Let_def)

text \<open>
  Claim C3, at a task whose importance is null. The analysis degrades the field to its
  default and returns, as the claim says; \<^verbatim>\<open>get_suggestions\<close> on the same input raises
  TypeError, because \<^verbatim>\<open>generate_suggestion_reason\<close> compares the raw value with 8.
\<close>

theorem suggest_raises_on_null_importance:
  "(\<exists>a. analyze_tasks example_env [mk_task 1 None None (Some PNone) None] ''smart_balance'' = Inr a) \<and>
   get_suggestions example_env [mk_task 1 None None (Some PNone) None] ''smart_balance'' 3
     = Inl TypeError"
proof -
  let ?T = "mk_task 1 None None (Some PNone) None"
  have ok: "\<forall>e. calculate_importance_score example_env ?T \<noteq> Inl e \<and>
              calculate_effort_score example_env ?T \<noteq> Inl e"
    by (simp add: scorer_defs mk_task_def example_env_def)
  have "\<exists>a. analyze_tasks example_env [?T] ''smart_balance'' = Inr a"
  proof (cases "analyze_tasks example_env [?T] ''smart_balance''")
    case (Inl e)
    from analyze_error_source [OF Inl] ok show ?thesis by simp
  next
    case (Inr a)
    then show ?thesis by simp
  qed
  then obtain a where a: "analyze_tasks example_env [?T] ''smart_balance'' = Inr a" by blast
  from analyze_result [OF a] obtain scored where
    rel: "list_all2 (scored_as example_env [?T] ''smart_balance'') [?T] scored"
    and t: "tasks a = py_sort_desc priority_score scored"
    by blast
  from rel obtain x where x: "scored = [x]" and sx: "scored_as example_env [?T] ''smart_balance'' ?T x"
    by (auto simp: list_all2_Cons1)
  have "task.truncate x = ?T" using sx by (simp add: scored_as_def)
  then have "importance x = Some PNone"
    by (simp add: task.truncate_def mk_task_def)
  from reason_null_importance [OF this]
  have r: "generate_suggestion_reason example_env x 1 = Inl TypeError" by simp
  have "tasks a = [x]" by (simp add: t x py_sort_desc_def)
  then have "get_suggestions example_env [?T] ''smart_balance'' 3 = Inl TypeError"
    using a r by (simp add: get_suggestions_def py_slice_to_def)
  with a show ?thesis by blast
qed

subsection \<open>Degradation of malformed fields in the analysis\<close>

lemma py_float_overflow:
  assumes "py_float env v = Inl OverflowError"
  shows "\<exists>n. v = PInt n \<and> float_overflow_bound \<le> \<bar>n\<bar>"
  using assms by (cases v) (auto split: if_splits option.splits)

lemma importance_overflow:
  assumes "calculate_importance_score env t = Inl e"
  shows "\<exists>n. importance t = Some (PInt n) \<and> float_overflow_bound \<le> \<bar>n\<bar>"
proof -
  have "py_float env (if dict_get (importance t) = PNone then DEFAULT_importance
                      else dict_get (importance t)) = Inl OverflowError"
    using assms importance_error [OF assms]
    by (auto simp: calculate_importance_score_def Let_def split: sum.splits if_splits)
  from py_float_overflow [OF this] show ?thesis
    by (cases "importance t")
       (auto simp: dict_get_def DEFAULT_importance_def float_overflow_bound_def split: if_splits)
qed

lemma effort_overflow:
  assumes "calculate_effort_score env t = Inl e"
  shows "\<exists>n. estimated_hours t = Some (PInt n) \<and> float_overflow_bound \<le> \<bar>n\<bar>"
proof -
  have "py_float env (if dict_get (estimated_hours t) = PNone then DEFAULT_estimated_hours
                      else dict_get (estimated_hours t)) = Inl OverflowError"
    using assms effort_error [OF assms]
    by (auto simp: calculate_effort_score_def Let_def split: sum.splits if_splits)
  from py_float_overflow [OF this] show ?thesis
    by (cases "estimated_hours t")
       (auto simp: dict_get_def DEFAULT_estimated_hours_def float_overflow_bound_def
             split: if_splits)
qed

lemma analyze_degrades:
  assumes "\<forall>t \<in> set ts. \<forall>n. float_overflow_bound \<le> \<bar>n\<bar> \<longrightarrow>
             importance t \<noteq> Some (PInt n) \<and> estimated_hours t \<noteq> Some (PInt n)"
  shows "\<exists>a. analyze_tasks env ts strategy = Inr a"
proof (cases "analyze_tasks env ts strategy")
  case (Inl e)
  from analyze_error_source [OF Inl] obtain t where "t \<in> set ts"
    and "calculate_importance_score env t = Inl e \<or> calculate_effort_score env t = Inl e"
    by blast
  with assms importance_overflow effort_overflow show ?thesis by blast
next
  case (Inr a)
  then show ?thesis by simp
qed

end
